theory Spec2Isabelle
  imports Complex_Main "HOL-Library.Word" "HOL-Library.Char_ord"
begin

section \<open>Decoded records\<close>

text \<open>
  \<^verbatim>\<open>encoding/json\<close> decodes a JSON value into an \<^verbatim>\<open>interface{}\<close> as one of
  \<^verbatim>\<open>nil\<close>, \<^verbatim>\<open>bool\<close>, \<^verbatim>\<open>float64\<close>, \<^verbatim>\<open>string\<close>, \<^verbatim>\<open>[]interface{}\<close> and
  \<^verbatim>\<open>map[string]interface{}\<close>. No operation of the package computes with a number, so
  the \<^verbatim>\<open>float64\<close> is carried as the real number it denotes.
\<close>

type_synonym float64 = real

datatype iface =
    Nil
  | Bool bool
  | Float64 float64
  | String string
  | Slice "iface list"
  | Map "string \<Rightarrow> iface option"

text \<open>A decoded log record is a \<^verbatim>\<open>map[string]interface{}\<close>.\<close>

type_synonym logEntry = "string \<Rightarrow> iface option"

text \<open>\<^verbatim>\<open>type FilterFunc func(log map[string]interface{}) bool\<close>\<close>

type_synonym FilterFunc = "logEntry \<Rightarrow> bool"

section \<open>The level filter\<close>

text \<open>
  Go's \<^verbatim>\<open>l == level\<close> compares an interface value with a string: it is true exactly
  when the dynamic type of \<^verbatim>\<open>l\<close> is \<^verbatim>\<open>string\<close> and the two strings are equal. A
  dynamic type other than \<^verbatim>\<open>string\<close> gives false (the comparison panics only for two
  values of one uncomparable type, which a string is not).
\<close>

fun iface_eq_string :: "iface \<Rightarrow> string \<Rightarrow> bool" where
  "iface_eq_string (String s) level = (s = level)"
| "iface_eq_string Nil level = False"
| "iface_eq_string (Bool b) level = False"
| "iface_eq_string (Float64 x) level = False"
| "iface_eq_string (Slice xs) level = False"
| "iface_eq_string (Map m) level = False"

text \<open>
  \<^verbatim>\<open>
  func FilterByLevel(level string) FilterFunc {
      return func(log map[string]interface{}) bool {
          if l, ok := log["level"]; ok {
              return l == level
          }
          return false
      }
  }
  \<close>
\<close>

definition FilterByLevel :: "string \<Rightarrow> FilterFunc" where
  "FilterByLevel level = (\<lambda>entry.
     (case entry ''level'' of
        Some l \<Rightarrow> iface_eq_string l level
      | None \<Rightarrow> False))"

text \<open>
  The retention loop of \<^verbatim>\<open>ReadCompressedLogsFiltered\<close>:
  \<^verbatim>\<open>
  var filtered []map[string]interface{}
  for _, log := range logs {
      if filter(log) {
          filtered = append(filtered, log)
      }
  }
  \<close>
  The accumulator \<^verbatim>\<open>filtered\<close> is passed along explicitly; the parameter
  \<^verbatim>\<open>filter\<close> is written \<open>flt\<close> and the loop variable \<^verbatim>\<open>log\<close> is written
  \<open>entry\<close>, both names being constants of HOL.
\<close>

fun retain_loop :: "FilterFunc \<Rightarrow> logEntry list \<Rightarrow> logEntry list \<Rightarrow> logEntry list" where
  "retain_loop flt [] filtered = filtered"
| "retain_loop flt (entry # logs) filtered =
     (if flt entry then retain_loop flt logs (filtered @ [entry])
      else retain_loop flt logs filtered)"

definition retain :: "FilterFunc \<Rightarrow> logEntry list \<Rightarrow> logEntry list" where
  "retain flt logs = retain_loop flt logs []"

section \<open>Errors and the file system\<close>

text \<open>
  Go's \<^verbatim>\<open>error\<close> values. \<open>Errorf msg err\<close> is \<^verbatim>\<open>fmt.Errorf(msg + ": %w", err)\<close>, which
  wraps \<^verbatim>\<open>err\<close>; \<open>ErrorString msg\<close> is \<^verbatim>\<open>fmt.Errorf(msg)\<close>. The others are the errors
  of the operating system and of the standard library that reach this package.
\<close>

datatype error =
    ErrNotExist
  | ErrPermission
  | ErrNoSpace
  | ErrIsDir
  | ErrNotDir
  | ErrIO
  | ErrHeader
  | EOF
  | ErrUnexpectedEOF
  | SyntaxError
  | UnmarshalTypeError
  | ParseError
  | ErrorString string
  | Errorf string error

text \<open>
  The file system is the state the package works on: the regular files with their bytes
  and the directories. A system call can also fail for a reason that lies outside these
  two maps (permissions, quota, a failing device). Such a failure is an input of the
  model: \<open>fault fs call path\<close> is the error the call meets on that path, if any, and
  \<open>torn fs path\<close> the bytes a failed write leaves in the file.
\<close>

datatype syscall =
  SysStat | SysOpen | SysRead | SysCreate | SysMkdirAll | SysCopy | SysFlush | SysClose

record fsys =
  files :: "string \<Rightarrow> string option"
  dirs :: "string set"
  fault :: "syscall \<Rightarrow> string \<Rightarrow> error option"
  torn :: "string \<Rightarrow> string"

text \<open>\<^verbatim>\<open>os.Stat(name)\<close>; only its error is used. \<open>None\<close> is Go's \<^verbatim>\<open>nil\<close>.\<close>

definition os_Stat :: "fsys \<Rightarrow> string \<Rightarrow> error option" where
  "os_Stat fs name =
     (case fault fs SysStat name of
        Some err \<Rightarrow> Some err
      | None \<Rightarrow> (if files fs name = None \<and> name \<notin> dirs fs then Some ErrNotExist else None))"

text \<open>
  \<^verbatim>\<open>os.Open(name)\<close> opens a file or a directory for reading. The handle is the
  name: no operation of the package renames or removes a file.
\<close>

definition os_Open :: "fsys \<Rightarrow> string \<Rightarrow> error + string" where
  "os_Open fs name =
     (case fault fs SysOpen name of
        Some err \<Rightarrow> Inl err
      | None \<Rightarrow> (if files fs name = None \<and> name \<notin> dirs fs then Inl ErrNotExist else Inr name))"

text \<open>Reading an open handle to its end; a directory cannot be read.\<close>

definition read_all :: "fsys \<Rightarrow> string \<Rightarrow> error + string" where
  "read_all fs file =
     (case fault fs SysRead file of
        Some err \<Rightarrow> Inl err
      | None \<Rightarrow> (case files fs file of None \<Rightarrow> Inl ErrIsDir | Some content \<Rightarrow> Inr content))"

text \<open>\<^verbatim>\<open>os.Create(name)\<close> creates the file or truncates it.\<close>

definition os_Create :: "fsys \<Rightarrow> string \<Rightarrow> error option \<times> fsys" where
  "os_Create fs name =
     (case fault fs SysCreate name of
        Some err \<Rightarrow> (Some err, fs)
      | None \<Rightarrow>
          (if name \<in> dirs fs then (Some ErrIsDir, fs)
           else (None, fs\<lparr>files := (files fs)(name \<mapsto> [])\<rparr>)))"

text \<open>
  \<^verbatim>\<open>os.MkdirAll(path, 0755)\<close>: no error when the directory exists already. The
  parents it creates on the way are not tracked.
\<close>

definition os_MkdirAll :: "fsys \<Rightarrow> string \<Rightarrow> error option \<times> fsys" where
  "os_MkdirAll fs path =
     (case fault fs SysMkdirAll path of
        Some err \<Rightarrow> (Some err, fs)
      | None \<Rightarrow>
          (if files fs path \<noteq> None then (Some ErrNotDir, fs)
           else (None, fs\<lparr>dirs := insert path (dirs fs)\<rparr>)))"

text \<open>The open file \<open>name\<close> after \<open>content\<close> has been written to it from its start.\<close>

definition write_file :: "fsys \<Rightarrow> string \<Rightarrow> string \<Rightarrow> fsys" where
  "write_file fs name content = fs\<lparr>files := (files fs)(name \<mapsto> content)\<rparr>"

text \<open>
  \<^verbatim>\<open>io.Copy(gzipWriter, source)\<close> with the gzip writer on the file \<open>dst\<close>: the bytes
  read from the source, or the error of the read or of the write.
\<close>

definition io_Copy :: "fsys \<Rightarrow> string \<Rightarrow> string \<Rightarrow> error + string" where
  "io_Copy fs dst source =
     (case read_all fs source of
        Inl err \<Rightarrow> Inl err
      | Inr content \<Rightarrow>
          (case fault fs SysCopy dst of Some err \<Rightarrow> Inl err | None \<Rightarrow> Inr content))"

section \<open>The logger\<close>

text \<open>
  \<^verbatim>\<open>lumberjack.Logger\<close>, with the fields \<^verbatim>\<open>NewLogger\<close> sets: \<^verbatim>\<open>MaxSize\<close> in
  megabytes, \<^verbatim>\<open>MaxAge\<close> in days.
\<close>

record lumberjack_Logger =
  Filename :: string
  MaxSize :: int
  MaxBackups :: int
  MaxAge :: int

text \<open>
  The zap logger \<^verbatim>\<open>NewLogger\<close> builds is a tee of cores, each at
  \<^verbatim>\<open>zapcore.DebugLevel\<close>: the JSON core writing to the lumberjack logger, and the console
  core when enabled.
\<close>

datatype zapcore_Core = FileCore lumberjack_Logger | ConsoleCore

record zap_Logger =
  cores :: "zapcore_Core list"
  addCaller :: bool

record Logger =
  zapLogger :: zap_Logger
  filePath :: string
  fileLogger :: lumberjack_Logger

record Config =
  LogPath :: string
  LogFileName :: string
  EnableConsoleOutput :: bool
  CompressOnClose :: bool
  RotationSize :: "64 word"

text \<open>
  \<^verbatim>\<open>NewLogger(config)\<close>. \<open>Join\<close> stands for \<^verbatim>\<open>filepath.Join\<close>. The encoder configuration
  is the same for every \<^verbatim>\<open>Config\<close> and is not part of the record.
  \<^verbatim>\<open>
  if config.LogPath == "" { return nil, fmt.Errorf("LogPath is required") }
  if config.LogFileName == "" { config.LogFileName = "app" }
  if err := os.MkdirAll(config.LogPath, 0755); err != nil {
      return nil, fmt.Errorf("failed to create log directory: %w", err)
  }
  logFilePath := filepath.Join(config.LogPath, config.LogFileName+".log")
  ...
  fileLogger := &lumberjack.Logger{
      Filename: logFilePath, MaxSize: 100, MaxBackups: 3, MaxAge: 28,
  }
  ...
  cores = append(cores, fileCore)
  if config.EnableConsoleOutput { ... cores = append(cores, consoleCore) }
  combinedCore := zapcore.NewTee(cores...)
  zapLogger := zap.New(combinedCore, zap.AddCaller())
  \<close>
\<close>

definition NewLogger ::
  "(string \<Rightarrow> string \<Rightarrow> string) \<Rightarrow> Config \<Rightarrow> fsys \<Rightarrow> (error + Logger) \<times> fsys" where
  "NewLogger Join config fs =
     (if LogPath config = [] then (Inl (ErrorString ''LogPath is required''), fs)
      else
        let config1 = (if LogFileName config = [] then config\<lparr>LogFileName := ''app''\<rparr> else config)
        in (case os_MkdirAll fs (LogPath config1) of
              (Some err, fs1) \<Rightarrow> (Inl (Errorf ''failed to create log directory'' err), fs1)
            | (None, fs1) \<Rightarrow>
                let logFilePath = Join (LogPath config1) (LogFileName config1 @ ''.log'');
                    fileLogger0 = \<lparr>Filename = logFilePath, MaxSize = 100, MaxBackups = 3, MaxAge = 28\<rparr>;
                    cores0 = [FileCore fileLogger0];
                    cores1 = (if EnableConsoleOutput config1 then cores0 @ [ConsoleCore] else cores0);
                    zapLogger0 = \<lparr>cores = cores1, addCaller = True\<rparr>
                in (Inr \<lparr>zapLogger = zapLogger0, filePath = logFilePath, fileLogger = fileLogger0\<rparr>, fs1)))"

section \<open>Compression\<close>

text \<open>
  \<^verbatim>\<open>CompressLogFile\<close>. \<open>gzip\<close> stands for the bytes \<^verbatim>\<open>compress/gzip\<close> writes for a
  payload that is written, flushed and closed. The deferred \<^verbatim>\<open>gzipWriter.Close()\<close>
  runs first of the deferred calls and completes the archive after the return value is
  fixed: an error it meets is dropped and leaves a torn archive behind a \<^verbatim>\<open>nil\<close>
  return. \<^verbatim>\<open>io.Copy\<close> reads the source to its end and fails when the read fails or
  when the write to the archive does. The mutex is not modelled, the model being
  sequential.
  \<^verbatim>\<open>
  if _, err := os.Stat(l.filePath); err != nil {
      return fmt.Errorf("log file not found: %w", err)
  }
  compressedPath := l.filePath + ".gz"
  source, err := os.Open(l.filePath)
  if err != nil { return fmt.Errorf("failed to open source file: %w", err) }
  defer source.Close()
  destination, err := os.Create(compressedPath)
  if err != nil { return fmt.Errorf("failed to create compressed file: %w", err) }
  defer destination.Close()
  gzipWriter := gzip.NewWriter(destination)
  defer gzipWriter.Close()
  if _, err := io.Copy(gzipWriter, source); err != nil {
      return fmt.Errorf("failed to compress: %w", err)
  }
  if err := gzipWriter.Flush(); err != nil {
      return fmt.Errorf("failed to flush gzip writer: %w", err)
  }
  return nil
  \<close>
\<close>

definition CompressLogFile ::
  "(string \<Rightarrow> string) \<Rightarrow> Logger \<Rightarrow> fsys \<Rightarrow> error option \<times> fsys" where
  "CompressLogFile gzip l fs =
     (case os_Stat fs (filePath l) of
        Some err \<Rightarrow> (Some (Errorf ''log file not found'' err), fs)
      | None \<Rightarrow>
          let compressedPath = filePath l @ ''.gz'' in
          (case os_Open fs (filePath l) of
             Inl err \<Rightarrow> (Some (Errorf ''failed to open source file'' err), fs)
           | Inr source \<Rightarrow>
               (case os_Create fs compressedPath of
                  (Some err, fs1) \<Rightarrow> (Some (Errorf ''failed to create compressed file'' err), fs1)
                | (None, fs1) \<Rightarrow>
                    (case io_Copy fs1 compressedPath source of
                       Inl err \<Rightarrow>
                         (Some (Errorf ''failed to compress'' err),
                          write_file fs1 compressedPath (torn fs1 compressedPath))
                     | Inr content \<Rightarrow>
                         (case fault fs1 SysFlush compressedPath of
                            Some err \<Rightarrow>
                              (Some (Errorf ''failed to flush gzip writer'' err),
                               write_file fs1 compressedPath (torn fs1 compressedPath))
                          | None \<Rightarrow>
                              (case fault fs1 SysClose compressedPath of
                                 Some err \<Rightarrow>
                                   (None, write_file fs1 compressedPath (torn fs1 compressedPath))
                               | None \<Rightarrow>
                                   (None, write_file fs1 compressedPath (gzip content))))))))"

section \<open>The JSON stream decoder\<close>

text \<open>
  \<^verbatim>\<open>ReadCompressedLogs\<close> drives a \<^verbatim>\<open>json.Decoder\<close> of Go's standard library
  (\<^verbatim>\<open>encoding/json\<close>) with \<^verbatim>\<open>More\<close> and \<^verbatim>\<open>Decode\<close>. What the loop does on a line that
  is not JSON is decided by that decoder, so the library's scanner (\<^verbatim>\<open>scanner.go\<close>)
  and stream reader (\<^verbatim>\<open>stream.go\<close>) are embedded here: the scanner is a state machine
  over bytes with a stack of open objects and arrays.
\<close>

definition isSpace :: "char \<Rightarrow> bool" where
  "isSpace c = (c = CHR '' '' \<or> c = CHR 0x09 \<or> c = CHR 0x0D \<or> c = CHR 0x0A)"

definition isDigit :: "char \<Rightarrow> bool" where
  "isDigit c = (CHR ''0'' \<le> c \<and> c \<le> CHR ''9'')"

definition isHex :: "char \<Rightarrow> bool" where
  "isHex c = (isDigit c \<or> (CHR ''a'' \<le> c \<and> c \<le> CHR ''f'') \<or> (CHR ''A'' \<le> c \<and> c \<le> CHR ''F''))"

datatype scanCode =
    scanContinue | scanBeginLiteral | scanBeginObject | scanObjectKey | scanObjectValue
  | scanEndObject | scanBeginArray | scanArrayValue | scanEndArray | scanSkipSpace
  | scanEnd | scanError

datatype parseItem = parseObjectKey | parseObjectValue | parseArrayValue

text \<open>The value of the scanner's \<^verbatim>\<open>step\<close> field: the state function to call next.\<close>

datatype stepFn =
    StBeginValueOrEmpty | StBeginValue | StBeginStringOrEmpty | StBeginString
  | StEndValue | StEndTop | StInString | StInStringEsc
  | StInStringEscU | StInStringEscU1 | StInStringEscU12 | StInStringEscU123
  | StNeg | St1 | St0 | StDot | StDot0 | StE | StESign | StE0
  | StT | StTr | StTru | StF | StFa | StFal | StFals | StN | StNu | StNul
  | StError

text \<open>The stack \<^verbatim>\<open>parseState\<close> has its top at the head of the list.\<close>

record scanner =
  step :: stepFn
  parseState :: "parseItem list"

definition maxNestingDepth :: nat where
  "maxNestingDepth = 10000"

text \<open>\<^verbatim>\<open>s.error(c, context)\<close>: the message is not kept.\<close>

definition scan_error :: "scanner \<Rightarrow> scanCode \<times> scanner" where
  "scan_error s = (scanError, s\<lparr>step := StError\<rparr>)"

definition scan_to :: "stepFn \<Rightarrow> scanner \<Rightarrow> scanCode \<times> scanner" where
  "scan_to st s = (scanContinue, s\<lparr>step := st\<rparr>)"

definition pushParseState :: "scanner \<Rightarrow> parseItem \<Rightarrow> scanCode \<Rightarrow> scanCode \<times> scanner" where
  "pushParseState s newParseState successState =
     (let s1 = s\<lparr>parseState := newParseState # parseState s\<rparr>
      in if length (parseState s1) \<le> maxNestingDepth then (successState, s1) else scan_error s1)"

definition popParseState :: "scanner \<Rightarrow> scanner" where
  "popParseState s =
     (let rest = tl (parseState s)
      in s\<lparr>parseState := rest, step := (if rest = [] then StEndTop else StEndValue)\<rparr>)"

definition stateEndTop :: "scanner \<Rightarrow> char \<Rightarrow> scanCode \<times> scanner" where
  "stateEndTop s c = (if \<not> isSpace c then (scanEnd, s\<lparr>step := StError\<rparr>) else (scanEnd, s))"

definition stateEndValue :: "scanner \<Rightarrow> char \<Rightarrow> scanCode \<times> scanner" where
  "stateEndValue s c =
     (case parseState s of
        [] \<Rightarrow> stateEndTop (s\<lparr>step := StEndTop\<rparr>) c
      | ps # rest \<Rightarrow>
          if isSpace c then (scanSkipSpace, s\<lparr>step := StEndValue\<rparr>)
          else (case ps of
                  parseObjectKey \<Rightarrow>
                    if c = CHR '':''
                    then (scanObjectKey, s\<lparr>parseState := parseObjectValue # rest, step := StBeginValue\<rparr>)
                    else scan_error s
                | parseObjectValue \<Rightarrow>
                    if c = CHR '',''
                    then (scanObjectValue, s\<lparr>parseState := parseObjectKey # rest, step := StBeginString\<rparr>)
                    else if c = CHR ''}'' then (scanEndObject, popParseState s)
                    else scan_error s
                | parseArrayValue \<Rightarrow>
                    if c = CHR '','' then (scanArrayValue, s\<lparr>step := StBeginValue\<rparr>)
                    else if c = CHR '']'' then (scanEndArray, popParseState s)
                    else scan_error s))"

definition stateBeginValue :: "scanner \<Rightarrow> char \<Rightarrow> scanCode \<times> scanner" where
  "stateBeginValue s c =
     (if isSpace c then (scanSkipSpace, s)
      else if c = CHR ''{'' then pushParseState (s\<lparr>step := StBeginStringOrEmpty\<rparr>) parseObjectKey scanBeginObject
      else if c = CHR ''['' then pushParseState (s\<lparr>step := StBeginValueOrEmpty\<rparr>) parseArrayValue scanBeginArray
      else if c = CHR 0x22 then (scanBeginLiteral, s\<lparr>step := StInString\<rparr>)
      else if c = CHR ''-'' then (scanBeginLiteral, s\<lparr>step := StNeg\<rparr>)
      else if c = CHR ''0'' then (scanBeginLiteral, s\<lparr>step := St0\<rparr>)
      else if c = CHR ''t'' then (scanBeginLiteral, s\<lparr>step := StT\<rparr>)
      else if c = CHR ''f'' then (scanBeginLiteral, s\<lparr>step := StF\<rparr>)
      else if c = CHR ''n'' then (scanBeginLiteral, s\<lparr>step := StN\<rparr>)
      else if CHR ''1'' \<le> c \<and> c \<le> CHR ''9'' then (scanBeginLiteral, s\<lparr>step := St1\<rparr>)
      else scan_error s)"

definition stateBeginValueOrEmpty :: "scanner \<Rightarrow> char \<Rightarrow> scanCode \<times> scanner" where
  "stateBeginValueOrEmpty s c =
     (if isSpace c then (scanSkipSpace, s)
      else if c = CHR '']'' then stateEndValue s c
      else stateBeginValue s c)"

definition stateBeginString :: "scanner \<Rightarrow> char \<Rightarrow> scanCode \<times> scanner" where
  "stateBeginString s c =
     (if isSpace c then (scanSkipSpace, s)
      else if c = CHR 0x22 then (scanBeginLiteral, s\<lparr>step := StInString\<rparr>)
      else scan_error s)"

definition stateBeginStringOrEmpty :: "scanner \<Rightarrow> char \<Rightarrow> scanCode \<times> scanner" where
  "stateBeginStringOrEmpty s c =
     (if isSpace c then (scanSkipSpace, s)
      else if c = CHR ''}''
      then stateEndValue (s\<lparr>parseState := parseObjectValue # tl (parseState s)\<rparr>) c
      else stateBeginString s c)"

definition stateInString :: "scanner \<Rightarrow> char \<Rightarrow> scanCode \<times> scanner" where
  "stateInString s c =
     (if c = CHR 0x22 then scan_to StEndValue s
      else if c = CHR 0x5C then scan_to StInStringEsc s
      else if c < CHR 0x20 then scan_error s
      else (scanContinue, s))"

definition stateInStringEsc :: "scanner \<Rightarrow> char \<Rightarrow> scanCode \<times> scanner" where
  "stateInStringEsc s c =
     (if c \<in> set [CHR ''b'', CHR ''f'', CHR ''n'', CHR ''r'', CHR ''t'', CHR 0x5C, CHR ''/'', CHR 0x22]
      then scan_to StInString s
      else if c = CHR ''u'' then scan_to StInStringEscU s
      else scan_error s)"

definition stateHex :: "stepFn \<Rightarrow> scanner \<Rightarrow> char \<Rightarrow> scanCode \<times> scanner" where
  "stateHex next_step s c = (if isHex c then scan_to next_step s else scan_error s)"

definition stateLit :: "char \<Rightarrow> stepFn \<Rightarrow> scanner \<Rightarrow> char \<Rightarrow> scanCode \<times> scanner" where
  "stateLit expected next_step s c = (if c = expected then scan_to next_step s else scan_error s)"

definition state0 :: "scanner \<Rightarrow> char \<Rightarrow> scanCode \<times> scanner" where
  "state0 s c =
     (if c = CHR ''.'' then scan_to StDot s
      else if c = CHR ''e'' \<or> c = CHR ''E'' then scan_to StE s
      else stateEndValue s c)"

definition state1 :: "scanner \<Rightarrow> char \<Rightarrow> scanCode \<times> scanner" where
  "state1 s c = (if isDigit c then scan_to St1 s else state0 s c)"

definition stateNeg :: "scanner \<Rightarrow> char \<Rightarrow> scanCode \<times> scanner" where
  "stateNeg s c =
     (if c = CHR ''0'' then scan_to St0 s
      else if CHR ''1'' \<le> c \<and> c \<le> CHR ''9'' then scan_to St1 s
      else scan_error s)"

definition stateDot :: "scanner \<Rightarrow> char \<Rightarrow> scanCode \<times> scanner" where
  "stateDot s c = (if isDigit c then scan_to StDot0 s else scan_error s)"

definition stateDot0 :: "scanner \<Rightarrow> char \<Rightarrow> scanCode \<times> scanner" where
  "stateDot0 s c =
     (if isDigit c then (scanContinue, s)
      else if c = CHR ''e'' \<or> c = CHR ''E'' then scan_to StE s
      else stateEndValue s c)"

definition stateESign :: "scanner \<Rightarrow> char \<Rightarrow> scanCode \<times> scanner" where
  "stateESign s c = (if isDigit c then scan_to StE0 s else scan_error s)"

definition stateE :: "scanner \<Rightarrow> char \<Rightarrow> scanCode \<times> scanner" where
  "stateE s c = (if c = CHR ''+'' \<or> c = CHR ''-'' then scan_to StESign s else stateESign s c)"

definition stateE0 :: "scanner \<Rightarrow> char \<Rightarrow> scanCode \<times> scanner" where
  "stateE0 s c = (if isDigit c then (scanContinue, s) else stateEndValue s c)"

text \<open>\<^verbatim>\<open>s.step(s, c)\<close>: the call through the \<^verbatim>\<open>step\<close> field.\<close>

definition scan_step :: "scanner \<Rightarrow> char \<Rightarrow> scanCode \<times> scanner" where
  "scan_step s c =
     (case step s of
        StBeginValueOrEmpty \<Rightarrow> stateBeginValueOrEmpty s c
      | StBeginValue \<Rightarrow> stateBeginValue s c
      | StBeginStringOrEmpty \<Rightarrow> stateBeginStringOrEmpty s c
      | StBeginString \<Rightarrow> stateBeginString s c
      | StEndValue \<Rightarrow> stateEndValue s c
      | StEndTop \<Rightarrow> stateEndTop s c
      | StInString \<Rightarrow> stateInString s c
      | StInStringEsc \<Rightarrow> stateInStringEsc s c
      | StInStringEscU \<Rightarrow> stateHex StInStringEscU1 s c
      | StInStringEscU1 \<Rightarrow> stateHex StInStringEscU12 s c
      | StInStringEscU12 \<Rightarrow> stateHex StInStringEscU123 s c
      | StInStringEscU123 \<Rightarrow> stateHex StInString s c
      | StNeg \<Rightarrow> stateNeg s c
      | St1 \<Rightarrow> state1 s c
      | St0 \<Rightarrow> state0 s c
      | StDot \<Rightarrow> stateDot s c
      | StDot0 \<Rightarrow> stateDot0 s c
      | StE \<Rightarrow> stateE s c
      | StESign \<Rightarrow> stateESign s c
      | StE0 \<Rightarrow> stateE0 s c
      | StT \<Rightarrow> stateLit (CHR ''r'') StTr s c
      | StTr \<Rightarrow> stateLit (CHR ''u'') StTru s c
      | StTru \<Rightarrow> stateLit (CHR ''e'') StEndValue s c
      | StF \<Rightarrow> stateLit (CHR ''a'') StFa s c
      | StFa \<Rightarrow> stateLit (CHR ''l'') StFal s c
      | StFal \<Rightarrow> stateLit (CHR ''s'') StFals s c
      | StFals \<Rightarrow> stateLit (CHR ''e'') StEndValue s c
      | StN \<Rightarrow> stateLit (CHR ''u'') StNu s c
      | StNu \<Rightarrow> stateLit (CHR ''l'') StNul s c
      | StNul \<Rightarrow> stateLit (CHR ''l'') StEndValue s c
      | StError \<Rightarrow> (scanError, s))"

text \<open>\<^verbatim>\<open>s.reset()\<close>\<close>

definition scan_reset :: scanner where
  "scan_reset = \<lparr>step = StBeginValue, parseState = []\<rparr>"

text \<open>
  The decoder: \<open>dec_buf\<close> is the input from \<^verbatim>\<open>dec.scanp\<close> on (the bytes buffered and
  those the reader has yet to deliver, the reader delivering all of them and then
  \<^verbatim>\<open>io.EOF\<close>), \<open>dec_err\<close> is the field \<^verbatim>\<open>dec.err\<close>. The decoder is never used through its
  token interface, so \<^verbatim>\<open>tokenState\<close> stays at the top level and its checks pass.
\<close>

record decoder =
  dec_buf :: string
  dec_err :: "error option"

definition NewDecoder :: "string \<Rightarrow> decoder" where
  "NewDecoder r = \<lparr>dec_buf = r, dec_err = None\<rparr>"

text \<open>
  The scan loop of \<^verbatim>\<open>readValue\<close>: \<open>n\<close> counts the bytes scanned, \<open>nonSpace\<close> is
  \<^verbatim>\<open>nonSpace(dec.buf)\<close>, read when the input ends inside a value.
  \<^verbatim>\<open>
  for ; scanp < len(dec.buf); scanp++ {
      c := dec.buf[scanp]
      switch dec.scan.step(&dec.scan, c) {
      case scanEnd:
          break Input
      case scanEndObject, scanEndArray:
          if stateEndValue(&dec.scan, ' ') == scanEnd { scanp++; break Input }
      case scanError:
          dec.err = dec.scan.err
          return 0, dec.scan.err
      }
  }
  if err != nil {
      if err == io.EOF {
          if dec.scan.step(&dec.scan, ' ') == scanEnd { break Input }
          if nonSpace(dec.buf) { err = io.ErrUnexpectedEOF }
      }
      dec.err = err
      return 0, err
  }
  \<close>
\<close>

fun readValue_scan :: "scanner \<Rightarrow> string \<Rightarrow> nat \<Rightarrow> bool \<Rightarrow> error + nat" where
  "readValue_scan s [] n nonSpace =
     (if fst (scan_step s (CHR '' '')) = scanEnd then Inr n
      else if nonSpace then Inl ErrUnexpectedEOF
      else Inl EOF)"
| "readValue_scan s (c # cs) n nonSpace =
     (let r = scan_step s c in
      if fst r = scanEnd then Inr n
      else if fst r = scanEndObject \<or> fst r = scanEndArray then
        (let r2 = stateEndValue (snd r) (CHR '' '') in
         if fst r2 = scanEnd then Inr (Suc n)
         else readValue_scan (snd r2) cs (Suc n) nonSpace)
      else if fst r = scanError then Inl SyntaxError
      else readValue_scan (snd r) cs (Suc n) nonSpace)"

definition readValue :: "decoder \<Rightarrow> error + nat" where
  "readValue dec =
     readValue_scan scan_reset (dec_buf dec) 0 (list_ex (\<lambda>c. \<not> isSpace c) (dec_buf dec))"

text \<open>
  \<^verbatim>\<open>
  func (dec *Decoder) peek() (byte, error) {
      var err error
      for {
          for i := dec.scanp; i < len(dec.buf); i++ {
              c := dec.buf[i]
              if isSpace(c) { continue }
              dec.scanp = i
              return c, nil
          }
          if err != nil { return 0, err }
          err = dec.refill()
      }
  }
  func (dec *Decoder) More() bool {
      c, err := dec.peek()
      return err == nil && c != ']' && c != '}'
  }
  \<close>
  Neither reads \<^verbatim>\<open>dec.err\<close>.
\<close>

definition peek :: "decoder \<Rightarrow> (error + char) \<times> decoder" where
  "peek dec =
     (case dropWhile isSpace (dec_buf dec) of
        [] \<Rightarrow> (Inl EOF, dec)
      | c # cs \<Rightarrow> (Inr c, dec\<lparr>dec_buf := c # cs\<rparr>))"

definition More :: "decoder \<Rightarrow> bool \<times> decoder" where
  "More dec =
     (case peek dec of
        (Inl e, dec1) \<Rightarrow> (False, dec1)
      | (Inr c, dec1) \<Rightarrow> (c \<noteq> CHR '']'' \<and> c \<noteq> CHR ''}'', dec1))"

text \<open>
  \<^verbatim>\<open>
  func (dec *Decoder) Decode(v any) error {
      if dec.err != nil { return dec.err }
      ...
      n, err := dec.readValue()
      if err != nil { return err }
      dec.d.init(dec.buf[dec.scanp : dec.scanp+n])
      dec.scanp += n
      // Don't save err from unmarshal into dec.err:
      // the connection is still usable since we read a complete JSON
      // object from it before the error happened.
      err = dec.d.unmarshal(v)
      ...
      return err
  }
  \<close>
  \<open>unmarshal\<close> stands for \<^verbatim>\<open>dec.d.unmarshal\<close> into a fresh \<^verbatim>\<open>map[string]interface{}\<close>: the
  map for the bytes of an object, the nil map for \<^verbatim>\<open>null\<close>, and an error for the bytes
  of any other value. Its error is returned and not stored, and the bytes are consumed
  either way.
\<close>

definition Decode ::
  "(string \<Rightarrow> error + logEntry) \<Rightarrow> decoder \<Rightarrow> (error + logEntry) \<times> decoder" where
  "Decode unmarshal dec =
     (case dec_err dec of
        Some e \<Rightarrow> (Inl e, dec)
      | None \<Rightarrow>
          (case readValue dec of
             Inl e \<Rightarrow> (Inl e, dec\<lparr>dec_err := Some e\<rparr>)
           | Inr n \<Rightarrow> (unmarshal (take n (dec_buf dec)), dec\<lparr>dec_buf := drop n (dec_buf dec)\<rparr>)))"

section \<open>Reading an archive\<close>

text \<open>
  The loop of \<^verbatim>\<open>ReadCompressedLogs\<close>. Nothing bounds the number of its rounds, so it
  is a partial function: \<open>None\<close> is the loop that never ends.
  \<^verbatim>\<open>
  for decoder.More() {
      var logEntry map[string]interface{}
      if err := decoder.Decode(&logEntry); err != nil {
          continue // Skip malformed lines
      }
      logs = append(logs, logEntry)
  }
  \<close>
\<close>

partial_function (option) decode_loop ::
  "(string \<Rightarrow> error + logEntry) \<Rightarrow> decoder \<Rightarrow> logEntry list \<Rightarrow> logEntry list option" where
  "decode_loop unmarshal dec logs =
     (if fst (More dec) then
        (case fst (Decode unmarshal (snd (More dec))) of
           Inl e \<Rightarrow> decode_loop unmarshal (snd (Decode unmarshal (snd (More dec)))) logs
         | Inr logEntry \<Rightarrow>
             decode_loop unmarshal (snd (Decode unmarshal (snd (More dec)))) (logs @ [logEntry]))
      else Some logs)"

text \<open>
  \<^verbatim>\<open>gzip.NewReader(file)\<close> reads the header from the file: it fails when the file
  cannot be read, or when \<open>gunzip\<close>, which stands for \<^verbatim>\<open>compress/gzip\<close>, refuses the
  bytes. Otherwise the reader delivers the payload \<open>gunzip\<close> gives.
\<close>

definition gzip_NewReader :: "(string \<Rightarrow> error + string) \<Rightarrow> fsys \<Rightarrow> string \<Rightarrow> error + string" where
  "gzip_NewReader gunzip fs file =
     (case read_all fs file of
        Inl err \<Rightarrow> Inl err
      | Inr bytes \<Rightarrow> gunzip bytes)"

text \<open>
  \<^verbatim>\<open>
  func ReadCompressedLogs(filePath string) ([]map[string]interface{}, error) {
      file, err := os.Open(filePath)
      if err != nil { return nil, fmt.Errorf("failed to open compressed file: %w", err) }
      gzipReader, err := gzip.NewReader(file)
      if err != nil { return nil, fmt.Errorf("failed to create gzip reader: %w", err) }
      var logs []map[string]interface{}
      decoder := json.NewDecoder(gzipReader)
      for decoder.More() { ... }
      return logs, nil
  }
  \<close>
  The result is \<open>None\<close> when the call does not return, \<open>Some (Inl err)\<close> for an
  error and \<open>Some (Inr logs)\<close> for the records.
\<close>

definition ReadCompressedLogs ::
  "(string \<Rightarrow> error + string) \<Rightarrow> (string \<Rightarrow> error + logEntry) \<Rightarrow> fsys \<Rightarrow> string
     \<Rightarrow> (error + logEntry list) option" where
  "ReadCompressedLogs gunzip unmarshal fs path =
     (case os_Open fs path of
        Inl err \<Rightarrow> Some (Inl (Errorf ''failed to open compressed file'' err))
      | Inr file \<Rightarrow>
          (case gzip_NewReader gunzip fs file of
             Inl err \<Rightarrow> Some (Inl (Errorf ''failed to create gzip reader'' err))
           | Inr gzipReader \<Rightarrow>
               map_option Inr (decode_loop unmarshal (NewDecoder gzipReader) [])))"

text \<open>
  \<^verbatim>\<open>
  func ReadCompressedLogsFiltered(filePath string, filter FilterFunc) (...) {
      logs, err := ReadCompressedLogs(filePath)
      if err != nil { return nil, err }
      var filtered []map[string]interface{}
      for _, log := range logs { if filter(log) { filtered = append(filtered, log) } }
      return filtered, nil
  }
  \<close>
\<close>

definition ReadCompressedLogsFiltered ::
  "(string \<Rightarrow> error + string) \<Rightarrow> (string \<Rightarrow> error + logEntry) \<Rightarrow> fsys \<Rightarrow> string
     \<Rightarrow> FilterFunc \<Rightarrow> (error + logEntry list) option" where
  "ReadCompressedLogsFiltered gunzip unmarshal fs path flt =
     (case ReadCompressedLogs gunzip unmarshal fs path of
        None \<Rightarrow> None
      | Some (Inl err) \<Rightarrow> Some (Inl err)
      | Some (Inr logs) \<Rightarrow> Some (Inr (retain flt logs)))"

section \<open>The time filter\<close>

text \<open>
  A \<^verbatim>\<open>time.Time\<close> is an instant; \<^verbatim>\<open>After\<close> and \<^verbatim>\<open>Before\<close> compare instants. An
  instant is counted in nanoseconds from a fixed origin.
\<close>

type_synonym Time = int

definition After :: "Time \<Rightarrow> Time \<Rightarrow> bool" where
  "After t u = (u < t)"

definition Before :: "Time \<Rightarrow> Time \<Rightarrow> bool" where
  "Before t u = (t < u)"

text \<open>\<^verbatim>\<open>time.RFC3339Nano\<close>\<close>

definition RFC3339Nano :: string where
  "RFC3339Nano = ''2006-01-02T15:04:05.999999999Z07:00''"

text \<open>
  The type assertion \<^verbatim>\<open>log["timestamp"].(string)\<close>: indexing a map at a missing key
  gives the nil interface, for which the assertion fails as for any value that is not a
  string.
\<close>

fun assert_string :: "iface option \<Rightarrow> string option" where
  "assert_string (Some (String s)) = Some s"
| "assert_string _ = None"

text \<open>
  \<open>Parse\<close> stands for \<^verbatim>\<open>time.Parse(layout, value)\<close>.
  \<^verbatim>\<open>
  func FilterByTimeRange(start, end time.Time) FilterFunc {
      return func(log map[string]interface{}) bool {
          if ts, ok := log["timestamp"].(string); ok {
              t, err := time.Parse(time.RFC3339Nano, ts)
              if err != nil {
                  t, err = time.Parse("2006-01-02T15:04:05.000-0700", ts)
                  if err != nil {
                      t, err = time.Parse("2006-01-02T15:04:05.000Z0700", ts)
                      if err != nil {
                          return false
                      }
                  }
              }
              return t.After(start) && t.Before(end)
          }
          return false
      }
  }
  \<close>
\<close>

definition FilterByTimeRange ::
  "(string \<Rightarrow> string \<Rightarrow> error + Time) \<Rightarrow> Time \<Rightarrow> Time \<Rightarrow> FilterFunc" where
  "FilterByTimeRange Parse start end = (\<lambda>entry.
     (case assert_string (entry ''timestamp'') of
        Some ts \<Rightarrow>
          (case Parse RFC3339Nano ts of
             Inr t \<Rightarrow> After t start \<and> Before t end
           | Inl err1 \<Rightarrow>
               (case Parse ''2006-01-02T15:04:05.000-0700'' ts of
                  Inr t \<Rightarrow> After t start \<and> Before t end
                | Inl err2 \<Rightarrow>
                    (case Parse ''2006-01-02T15:04:05.000Z0700'' ts of
                       Inr t \<Rightarrow> After t start \<and> Before t end
                     | Inl err3 \<Rightarrow> False)))
      | None \<Rightarrow> False))"

text \<open>
  The time filter in the words of the specification: an ordered list of formats, the
  first that parses is used, and the parsed time lies strictly between the bounds.
\<close>

definition timestamp_formats :: "string list" where
  "timestamp_formats =
     [''2006-01-02T15:04:05.999999999Z07:00'',
      ''2006-01-02T15:04:05.000-0700'',
      ''2006-01-02T15:04:05.000Z0700'']"

fun first_parse :: "(string \<Rightarrow> string \<Rightarrow> error + Time) \<Rightarrow> string list \<Rightarrow> string \<Rightarrow> Time option" where
  "first_parse Parse [] ts = None"
| "first_parse Parse (layout # layouts) ts =
     (case Parse layout ts of
        Inr t \<Rightarrow> Some t
      | Inl e \<Rightarrow> first_parse Parse layouts ts)"

definition time_range_spec ::
  "(string \<Rightarrow> string \<Rightarrow> error + Time) \<Rightarrow> Time \<Rightarrow> Time \<Rightarrow> logEntry \<Rightarrow> bool" where
  "time_range_spec Parse start end entry =
     (case entry ''timestamp'' of
        Some (String ts) \<Rightarrow>
          (case first_parse Parse timestamp_formats ts of
             Some t \<Rightarrow> start < t \<and> t < end
           | None \<Rightarrow> False)
      | _ \<Rightarrow> False)"

section \<open>Logging at a level\<close>

text \<open>
  \<^verbatim>\<open>type LogLevel string\<close> with its six constants. The levels of \<^verbatim>\<open>zapcore\<close> carry the
  prefix \<open>zap\<close> here.
\<close>

type_synonym LogLevel = string

definition DebugLevel :: LogLevel where "DebugLevel = ''debug''"
definition InfoLevel :: LogLevel where "InfoLevel = ''info''"
definition WarnLevel :: LogLevel where "WarnLevel = ''warn''"
definition ErrorLevel :: LogLevel where "ErrorLevel = ''error''"
definition FatalLevel :: LogLevel where "FatalLevel = ''fatal''"
definition PanicLevel :: LogLevel where "PanicLevel = ''panic''"

datatype zapcore_Level =
  zapDebug | zapInfo | zapWarn | zapError | zapDPanic | zapPanic | zapFatal

type_synonym zap_Field = "string \<times> iface"

record zapcore_Entry =
  Level :: zapcore_Level
  Message :: string
  Fields :: "zap_Field list"

text \<open>
  The process as the logging calls see it: the entries handed to each core, in order,
  and whether the process still runs. \<^verbatim>\<open>zapLogger.Fatal\<close> writes and then calls
  \<^verbatim>\<open>os.Exit(1)\<close>, \<^verbatim>\<open>zapLogger.Panic\<close> writes and then panics with the message; a process
  that has left normal execution makes no further call. The variadic parameter
  \<^verbatim>\<open>fields\<close> is written \<open>flds\<close>.
\<close>

datatype status = Running | Exited int | Panicking string

record process =
  written :: "(zapcore_Core \<times> zapcore_Entry) list"
  status :: status

definition zap_log ::
  "zapcore_Level \<Rightarrow> zap_Logger \<Rightarrow> string \<Rightarrow> zap_Field list \<Rightarrow> process \<Rightarrow> process" where
  "zap_log lvl zl message flds p =
     (if status p \<noteq> Running then p
      else p\<lparr>written := written p @
                 map (\<lambda>core. (core, \<lparr>Level = lvl, Message = message, Fields = flds\<rparr>)) (cores zl),
             status := (case lvl of
                          zapFatal \<Rightarrow> Exited 1
                        | zapPanic \<Rightarrow> Panicking message
                        | _ \<Rightarrow> Running)\<rparr>)"

definition Debug :: "Logger \<Rightarrow> string \<Rightarrow> zap_Field list \<Rightarrow> process \<Rightarrow> process" where
  "Debug l message flds = zap_log zapDebug (zapLogger l) message flds"

definition Info :: "Logger \<Rightarrow> string \<Rightarrow> zap_Field list \<Rightarrow> process \<Rightarrow> process" where
  "Info l message flds = zap_log zapInfo (zapLogger l) message flds"

definition Warn :: "Logger \<Rightarrow> string \<Rightarrow> zap_Field list \<Rightarrow> process \<Rightarrow> process" where
  "Warn l message flds = zap_log zapWarn (zapLogger l) message flds"

definition Error :: "Logger \<Rightarrow> string \<Rightarrow> zap_Field list \<Rightarrow> process \<Rightarrow> process" where
  "Error l message flds = zap_log zapError (zapLogger l) message flds"

definition Fatal :: "Logger \<Rightarrow> string \<Rightarrow> zap_Field list \<Rightarrow> process \<Rightarrow> process" where
  "Fatal l message flds = zap_log zapFatal (zapLogger l) message flds"

definition Panic :: "Logger \<Rightarrow> string \<Rightarrow> zap_Field list \<Rightarrow> process \<Rightarrow> process" where
  "Panic l message flds = zap_log zapPanic (zapLogger l) message flds"

text \<open>
  \<^verbatim>\<open>
  func (l *Logger) LogWithLevel(level LogLevel, message string, fields ...zap.Field) {
      switch level {
      case DebugLevel: l.Debug(message, fields...)
      case InfoLevel:  l.Info(message, fields...)
      case WarnLevel:  l.Warn(message, fields...)
      case ErrorLevel: l.Error(message, fields...)
      case FatalLevel: l.Fatal(message, fields...)
      case PanicLevel: l.Panic(message, fields...)
      default:         l.Info(message, fields...)
      }
  }
  \<close>
\<close>

definition LogWithLevel ::
  "Logger \<Rightarrow> LogLevel \<Rightarrow> string \<Rightarrow> zap_Field list \<Rightarrow> process \<Rightarrow> process" where
  "LogWithLevel l level message flds =
     (if level = DebugLevel then Debug l message flds
      else if level = InfoLevel then Info l message flds
      else if level = WarnLevel then Warn l message flds
      else if level = ErrorLevel then Error l message flds
      else if level = FatalLevel then Fatal l message flds
      else if level = PanicLevel then Panic l message flds
      else Info l message flds)"

section \<open>Sample inputs\<close>

text \<open>
  Concrete inputs on which the properties below are evaluated: file systems without
  faults, a logger as \<open>NewLogger\<close> builds it, stand-ins for the functions of the standard
  library, and four payloads of three lines whose middle line varies.
\<close>

definition no_fault :: "syscall \<Rightarrow> string \<Rightarrow> error option" where
  "no_fault call path = None"

definition one_file :: "string \<Rightarrow> string \<Rightarrow> fsys" where
  "one_file name content =
     \<lparr>files = Map.empty(name \<mapsto> content), dirs = {}, fault = no_fault, torn = (\<lambda>path. [])\<rparr>"

definition level_entry :: "string \<Rightarrow> logEntry" where
  "level_entry lv = Map.empty(''level'' \<mapsto> String lv)"

definition sample_unmarshal :: "string \<Rightarrow> error + logEntry" where
  \<open>sample_unmarshal bytes =
     (if bytes = ''{"level":"info"}'' then Inr (level_entry ''info'')
      else if bytes = ''{"level":"error"}'' then Inr (level_entry ''error'')
      else Inl UnmarshalTypeError)\<close>

definition clean_payload :: string where
  \<open>clean_payload = ''{"level":"info"}\<newline>{"level":"error"}\<newline>''\<close>

definition malformed_payload :: string where
  \<open>malformed_payload = ''{"level":"info"}\<newline>{bad json}\<newline>{"level":"error"}\<newline>''\<close>

definition number_payload :: string where
  \<open>number_payload = ''{"level":"info"}\<newline>42\<newline>{"level":"error"}\<newline>''\<close>

definition brace_payload :: string where
  \<open>brace_payload = ''{"level":"info"}\<newline>}\<newline>{"level":"error"}\<newline>''\<close>

definition sample_fs :: fsys where
  "sample_fs = \<lparr>files = Map.empty, dirs = {}, fault = (\<lambda>call path. None), torn = (\<lambda>path. [])\<rparr>"

definition sample_Join :: "string \<Rightarrow> string \<Rightarrow> string" where
  "sample_Join dir name = dir @ ''/'' @ name"

definition sample_config :: Config where
  "sample_config = \<lparr>LogPath = ''logs'', LogFileName = [], EnableConsoleOutput = False,
                     CompressOnClose = True, RotationSize = 1\<rparr>"

definition sample_logger :: Logger where
  "sample_logger =
     \<lparr>zapLogger = \<lparr>cores = [FileCore \<lparr>Filename = ''logs/app.log'', MaxSize = 100, MaxBackups = 3, MaxAge = 28\<rparr>],
                    addCaller = True\<rparr>,
      filePath = ''logs/app.log'',
      fileLogger = \<lparr>Filename = ''logs/app.log'', MaxSize = 100, MaxBackups = 3, MaxAge = 28\<rparr>\<rparr>"

definition sample_Parse :: "string \<Rightarrow> string \<Rightarrow> error + Time" where
  "sample_Parse layout ts =
     (if layout = ''2006-01-02T15:04:05.000-0700'' \<and> ts = ''2025-12-02T15:59:57.317+0800''
      then Inr 1764662397317000000
      else Inl ParseError)"

definition sample_gzip :: "string \<Rightarrow> string" where
  "sample_gzip content = ''gzip:'' @ content"




section \<open>Properties of the level filter\<close>

lemma iface_eq_string_iff: "iface_eq_string l level = (l = String level)"
  by (cases l) auto

lemma FilterByLevel_iff: "FilterByLevel level entry = (entry ''level'' = Some (String level))"
  by (simp add: FilterByLevel_def iface_eq_string_iff split: option.split)

lemma retain_loop_filter: "retain_loop f logs acc = acc @ filter f logs"
  by (induction logs arbitrary: acc) simp_all

lemma retain_filter: "retain f logs = filter f logs"
  by (simp add: retain_def retain_loop_filter)

lemma FilterByLevel_eq: "FilterByLevel level = (\<lambda>entry. entry ''level'' = Some (String level))"
  by (rule ext) (simp add: FilterByLevel_iff)

text \<open>
  Claim C5. The predicate \<open>FilterByLevel L\<close> is true of a record exactly when the record
  has a \<^verbatim>\<open>level\<close> field whose value is the string \<open>L\<close>, character for character; a
  record without the field never matches, and a level that differs in case does not
  match. Of four records with the levels info, warn, error and error, the retention
  loop with \<open>FilterByLevel ''error''\<close> keeps exactly the last two.
\<close>

theorem FilterByLevel_exact_match:
  "(FilterByLevel L entry \<longleftrightarrow> entry ''level'' = Some (String L))
   \<and> \<not> FilterByLevel L (entry(''level'' := None))
   \<and> (FilterByLevel L (entry(''level'' \<mapsto> String L')) \<longleftrightarrow> L' = L)
   \<and> \<not> FilterByLevel ''error'' (entry(''level'' \<mapsto> String ''Error''))
   \<and> retain (FilterByLevel ''error'')
         [e1(''level'' \<mapsto> String ''info''), e2(''level'' \<mapsto> String ''warn''),
          e3(''level'' \<mapsto> String ''error''), e4(''level'' \<mapsto> String ''error'')]
       = [e3(''level'' \<mapsto> String ''error''), e4(''level'' \<mapsto> String ''error'')]"
  by (simp add: FilterByLevel_iff retain_filter)

text \<open>
  Claim C6. Filtering by level is idempotent: the retention loop with \<open>FilterByLevel L\<close>
  applied to its own result changes nothing, and its result is the sublist of the
  records whose \<^verbatim>\<open>level\<close> is the string \<open>L\<close>.
\<close>

theorem FilterByLevel_idempotent:
  "retain (FilterByLevel L) (retain (FilterByLevel L) logs) = retain (FilterByLevel L) logs
   \<and> retain (FilterByLevel L) logs = filter (\<lambda>entry. entry ''level'' = Some (String L)) logs"
  by (simp add: retain_filter FilterByLevel_eq)

text \<open>
  Claim C10. A record whose \<^verbatim>\<open>level\<close> field holds a value that is not a string (nil, a
  boolean, a number, an array, an object) is rejected by \<open>FilterByLevel L\<close> for every
  \<open>L\<close>; a record that matches has a \<^verbatim>\<open>level\<close> that is the string \<open>L\<close>; so the filter
  answers for a level that is not a string as it does for a missing one.
\<close>

theorem FilterByLevel_non_string:
  "(entry ''level'' = Some v \<and> (\<forall>s. v \<noteq> String s) \<longrightarrow> \<not> FilterByLevel L entry)
   \<and> (FilterByLevel L entry \<longrightarrow> entry ''level'' = Some (String L))
   \<and> (entry ''level'' = Some v \<and> (\<forall>s. v \<noteq> String s) \<longrightarrow>
        FilterByLevel L entry = FilterByLevel L (entry(''level'' := None)))"
  by (auto simp: FilterByLevel_iff)

theorem FilterByLevel_non_string_witness:
  "\<not> FilterByLevel ''3'' (Map.empty(''level'' \<mapsto> Float64 3))
   \<and> \<not> FilterByLevel ''true'' (Map.empty(''level'' \<mapsto> Bool True))
   \<and> \<not> FilterByLevel ''null'' (Map.empty(''level'' \<mapsto> Nil))
   \<and> \<not> FilterByLevel ''error'' (Map.empty(''level'' \<mapsto> Slice [String ''error'']))
   \<and> \<not> FilterByLevel ''error''
         (Map.empty(''level'' \<mapsto> Map (Map.empty(''level'' \<mapsto> String ''error''))))
   \<and> FilterByLevel ''error'' (Map.empty(''level'' \<mapsto> String ''error''))"
  using FilterByLevel_non_string [of "Map.empty(''level'' \<mapsto> Float64 3)" "Float64 3" "''3''"]
    FilterByLevel_non_string [of "Map.empty(''level'' \<mapsto> Bool True)" "Bool True" "''true''"]
    FilterByLevel_non_string [of "Map.empty(''level'' \<mapsto> Nil)" "Nil" "''null''"]
    FilterByLevel_non_string [of "Map.empty(''level'' \<mapsto> Slice [String ''error''])"
      "Slice [String ''error'']" "''error''"]
    FilterByLevel_non_string [of
      "Map.empty(''level'' \<mapsto> Map (Map.empty(''level'' \<mapsto> String ''error'')))"
      "Map (Map.empty(''level'' \<mapsto> String ''error''))" "''error''"]
  by (simp add: FilterByLevel_def)

section \<open>Properties of the filtered read\<close>

text \<open>
  Claim C4. \<open>ReadCompressedLogsFiltered\<close> returns the records of \<open>ReadCompressedLogs\<close> on
  the same archive for which the predicate holds, in the same order and with their
  repetitions (the list function \<open>filter\<close>); it returns an error exactly when
  \<open>ReadCompressedLogs\<close> does, and then the same error; and it returns at all exactly
  when \<open>ReadCompressedLogs\<close> does.
\<close>

theorem ReadCompressedLogsFiltered_refines:
  "ReadCompressedLogsFiltered gunzip unmarshal fs path flt =
     (case ReadCompressedLogs gunzip unmarshal fs path of
        None \<Rightarrow> None
      | Some (Inl err) \<Rightarrow> Some (Inl err)
      | Some (Inr logs) \<Rightarrow> Some (Inr (filter flt logs)))
   \<and> ((\<exists>err. ReadCompressedLogsFiltered gunzip unmarshal fs path flt = Some (Inl err))
        = (\<exists>err. ReadCompressedLogs gunzip unmarshal fs path = Some (Inl err)))"
  by (auto simp: ReadCompressedLogsFiltered_def retain_filter split: option.splits sum.splits)

section \<open>Properties of the decoder loop\<close>

text \<open>
  \<open>More\<close> looks only at the input: it keeps the error field and gives the same answer
  when asked again.
\<close>

lemma More_Nil:
  assumes "dropWhile isSpace (dec_buf dec) = []"
  shows "More dec = (False, dec)"
  unfolding More_def peek_def assms by simp

lemma More_Cons:
  assumes "dropWhile isSpace (dec_buf dec) = c # cs"
  shows "More dec = (c \<noteq> CHR '']'' \<and> c \<noteq> CHR ''}'', dec\<lparr>dec_buf := c # cs\<rparr>)"
  unfolding More_def peek_def assms by simp

lemma More_err: "dec_err (snd (More dec)) = dec_err dec"
  by (cases "dropWhile isSpace (dec_buf dec)") (simp_all add: More_Nil More_Cons)

lemma More_idem: "More (snd (More dec)) = More dec"
proof (cases "dropWhile isSpace (dec_buf dec)")
  case Nil
  then show ?thesis by (simp add: More_Nil)
next
  case (Cons c cs)
  then have "\<not> isSpace c"
    using hd_dropWhile [of isSpace "dec_buf dec"] by simp
  then have "dropWhile isSpace (dec_buf (dec\<lparr>dec_buf := c # cs\<rparr>)) = c # cs"
    by simp
  then show ?thesis
    by (simp add: More_Cons [OF Cons] More_Cons)
qed

lemma More_err_irrelevant: "fst (More (dec\<lparr>dec_err := e\<rparr>)) = fst (More dec)"
proof (cases "dropWhile isSpace (dec_buf dec)")
  case Nil
  then have "dropWhile isSpace (dec_buf (dec\<lparr>dec_err := e\<rparr>)) = []" by simp
  then show ?thesis by (simp add: More_Nil [OF Nil] More_Nil)
next
  case (Cons c cs)
  then have "dropWhile isSpace (dec_buf (dec\<lparr>dec_err := e\<rparr>)) = c # cs" by simp
  then show ?thesis by (simp add: More_Cons [OF Cons] More_Cons)
qed

text \<open>
  Once \<open>Decode\<close> has stored an error, every later call returns it and consumes nothing.
  With input left that \<open>More\<close> accepts, no round of the loop makes progress: the loop
  does not return.
\<close>

lemma Decode_sticky: "dec_err dec = Some e \<Longrightarrow> Decode unmarshal dec = (Inl e, dec)"
  by (simp add: Decode_def)

lemma decode_loop_returns_not_stuck:
  assumes "decode_loop unmarshal dec logs = Some r"
  shows "\<not> (dec_err dec \<noteq> None \<and> fst (More dec))"
  using assms
proof (induction unmarshal dec logs r
    rule: decode_loop.raw_induct [rotated 1, consumes 1, case_names round])
  case (round loop unmarshal dec logs r)
  show ?case
  proof
    assume stuck: "dec_err dec \<noteq> None \<and> fst (More dec)"
    then obtain e where e: "dec_err (snd (More dec)) = Some e"
      by (auto simp: More_err)
    from stuck e round(2) have "loop unmarshal (snd (More dec)) logs = Some r"
      by (simp add: Decode_sticky)
    then have "\<not> (dec_err (snd (More dec)) \<noteq> None \<and> fst (More (snd (More dec))))"
      by (rule round(1))
    with stuck e show False
      by (simp add: More_idem)
  qed
qed

lemma decode_loop_stuck:
  "dec_err dec = Some e \<Longrightarrow> fst (More dec) \<Longrightarrow> decode_loop unmarshal dec logs = None"
  using decode_loop_returns_not_stuck [of unmarshal dec logs]
  by (cases "decode_loop unmarshal dec logs") auto

lemma decode_loop_syntax_error:
  assumes "fst (More dec)" "dec_err dec = None" "readValue (snd (More dec)) = Inl e"
  shows "decode_loop unmarshal dec logs = None"
proof -
  let ?d = "(snd (More dec))\<lparr>dec_err := Some e\<rparr>"
  have D: "Decode unmarshal (snd (More dec)) = (Inl e, ?d)"
    using assms by (simp add: Decode_def More_err)
  have "fst (More ?d)"
    using assms(1) by (simp add: More_err_irrelevant More_idem)
  then have "decode_loop unmarshal ?d logs = None"
    by (intro decode_loop_stuck [where e = e]) simp_all
  then show ?thesis
    using assms(1) D by (subst decode_loop.simps) simp
qed

text \<open>One round of the loop, for each way it can go.\<close>

lemma decode_loop_done:
  "\<not> fst (More (NewDecoder b)) \<Longrightarrow> decode_loop unmarshal (NewDecoder b) logs = Some logs"
  by (subst decode_loop.simps) simp

lemma decode_loop_append:
  assumes "More (NewDecoder b) = (True, NewDecoder b1)" "readValue (NewDecoder b1) = Inr n"
    and "unmarshal (take n b1) = Inr logEntry"
  shows "decode_loop unmarshal (NewDecoder b) logs =
         decode_loop unmarshal (NewDecoder (drop n b1)) (logs @ [logEntry])"
  using assms by (subst decode_loop.simps) (simp add: Decode_def NewDecoder_def)

lemma decode_loop_skip:
  assumes "More (NewDecoder b) = (True, NewDecoder b1)" "readValue (NewDecoder b1) = Inr n"
    and "unmarshal (take n b1) = Inl e"
  shows "decode_loop unmarshal (NewDecoder b) logs =
         decode_loop unmarshal (NewDecoder (drop n b1)) logs"
  using assms by (subst decode_loop.simps) (simp add: Decode_def NewDecoder_def)

lemma decode_loop_value:
  assumes "More (NewDecoder b) = (True, NewDecoder b1)" "readValue (NewDecoder b1) = Inr n"
  shows "\<exists>logs'. decode_loop unmarshal (NewDecoder b) logs =
                  decode_loop unmarshal (NewDecoder (drop n b1)) logs'"
proof (cases "unmarshal (take n b1)")
  case (Inl e)
  from decode_loop_skip [where unmarshal = unmarshal, OF assms this] show ?thesis by blast
next
  case (Inr logEntry)
  from decode_loop_append [where unmarshal = unmarshal, OF assms this] show ?thesis by blast
qed

lemma decode_loop_no_value:
  assumes "More (NewDecoder b) = (True, NewDecoder b1)" "readValue (NewDecoder b1) = Inl e"
  shows "decode_loop unmarshal (NewDecoder b) logs = None"
  using assms by (intro decode_loop_syntax_error [where e = e]) (simp_all add: NewDecoder_def)

text \<open>The rounds of the loop on the four payloads.\<close>

lemma clean_rounds:
  "More (NewDecoder clean_payload) = (True, NewDecoder clean_payload)"
  "readValue (NewDecoder clean_payload) = Inr 16"
  "More (NewDecoder (drop 16 clean_payload)) = (True, NewDecoder (drop 17 clean_payload))"
  "readValue (NewDecoder (drop 17 clean_payload)) = Inr 17"
  "\<not> fst (More (NewDecoder (drop 34 clean_payload)))"
  by code_simp+

lemma clean_values:
  "sample_unmarshal (take 16 clean_payload) = Inr (level_entry ''info'')"
  "sample_unmarshal (take 17 (drop 17 clean_payload)) = Inr (level_entry ''error'')"
  by (simp_all add: sample_unmarshal_def clean_payload_def)

lemma clean_loop:
  "decode_loop sample_unmarshal (NewDecoder clean_payload) [] =
     Some [level_entry ''info'', level_entry ''error'']"
  by (simp add: decode_loop_append [where unmarshal = sample_unmarshal, OF clean_rounds(1,2) clean_values(1)]
      decode_loop_append [where unmarshal = sample_unmarshal, OF clean_rounds(3,4) clean_values(2)]
      decode_loop_done [OF clean_rounds(5)])

lemma number_rounds:
  "More (NewDecoder number_payload) = (True, NewDecoder number_payload)"
  "readValue (NewDecoder number_payload) = Inr 16"
  "More (NewDecoder (drop 16 number_payload)) = (True, NewDecoder (drop 17 number_payload))"
  "readValue (NewDecoder (drop 17 number_payload)) = Inr 2"
  "More (NewDecoder (drop 19 number_payload)) = (True, NewDecoder (drop 20 number_payload))"
  "readValue (NewDecoder (drop 20 number_payload)) = Inr 17"
  "\<not> fst (More (NewDecoder (drop 37 number_payload)))"
  by code_simp+

lemma number_values:
  "sample_unmarshal (take 16 number_payload) = Inr (level_entry ''info'')"
  "sample_unmarshal (take 2 (drop 17 number_payload)) = Inl UnmarshalTypeError"
  "sample_unmarshal (take 17 (drop 20 number_payload)) = Inr (level_entry ''error'')"
  by (simp_all add: sample_unmarshal_def number_payload_def)

lemma number_loop:
  "decode_loop sample_unmarshal (NewDecoder number_payload) [] =
     Some [level_entry ''info'', level_entry ''error'']"
  by (simp add: decode_loop_append [where unmarshal = sample_unmarshal, OF number_rounds(1,2) number_values(1)]
      decode_loop_skip [where unmarshal = sample_unmarshal, OF number_rounds(3,4) number_values(2)]
      decode_loop_append [where unmarshal = sample_unmarshal, OF number_rounds(5,6) number_values(3)]
      decode_loop_done [OF number_rounds(7)])

lemma brace_rounds:
  "More (NewDecoder brace_payload) = (True, NewDecoder brace_payload)"
  "readValue (NewDecoder brace_payload) = Inr 16"
  "\<not> fst (More (NewDecoder (drop 16 brace_payload)))"
  by code_simp+

lemma brace_values:
  "sample_unmarshal (take 16 brace_payload) = Inr (level_entry ''info'')"
  by (simp_all add: sample_unmarshal_def brace_payload_def)

lemma brace_loop:
  "decode_loop sample_unmarshal (NewDecoder brace_payload) [] = Some [level_entry ''info'']"
  by (simp add: decode_loop_append [where unmarshal = sample_unmarshal, OF brace_rounds(1,2) brace_values(1)]
      decode_loop_done [OF brace_rounds(3)])

lemma malformed_rounds:
  "More (NewDecoder malformed_payload) = (True, NewDecoder malformed_payload)"
  "readValue (NewDecoder malformed_payload) = Inr 16"
  "More (NewDecoder (drop 16 malformed_payload)) = (True, NewDecoder (drop 17 malformed_payload))"
  "readValue (NewDecoder (drop 17 malformed_payload)) = Inl SyntaxError"
  by code_simp+

lemma malformed_loop: "decode_loop unmarshal (NewDecoder malformed_payload) [] = None"
proof -
  obtain logs' where
    "decode_loop unmarshal (NewDecoder malformed_payload) [] =
     decode_loop unmarshal (NewDecoder (drop 16 malformed_payload)) logs'"
    using decode_loop_value [OF malformed_rounds(1,2)] by blast
  then show ?thesis
    by (simp add: decode_loop_no_value [OF malformed_rounds(3,4)])
qed

lemma read_one_file:
  "ReadCompressedLogs (\<lambda>bytes. Inr payload) unmarshal (one_file name archive) name =
     map_option Inr (decode_loop unmarshal (NewDecoder payload) [])"
  by (simp add: ReadCompressedLogs_def os_Open_def gzip_NewReader_def read_all_def one_file_def
      no_fault_def)

text \<open>
  Claim C1 says that an archive with one malformed line is read like the archive without
  that line. The code does so for a line that holds a number, a string, a boolean or an
  array: with the line \<^verbatim>\<open>42\<close> between two records, \<open>ReadCompressedLogs\<close> returns
  the two records, as it does for the archive without that line (a line \<^verbatim>\<open>null\<close> is
  not skipped either: it is appended as a nil map). It does not for a line that is
  not JSON: with the line \<^verbatim>\<open>{bad json}\<close> in the same place the call never returns,
  whatever \<open>unmarshal\<close> does, and with the line \<^verbatim>\<open>}\<close> it returns the first record alone,
  the record after the line being lost.
\<close>

theorem ReadCompressedLogs_malformed_line:
  "ReadCompressedLogs (\<lambda>bytes. Inr clean_payload) sample_unmarshal
       (one_file ''app.log.gz'' archive) ''app.log.gz''
     = Some (Inr [level_entry ''info'', level_entry ''error''])
   \<and> ReadCompressedLogs (\<lambda>bytes. Inr malformed_payload) unmarshal
       (one_file ''app.log.gz'' archive) ''app.log.gz''
     = None
   \<and> ReadCompressedLogs (\<lambda>bytes. Inr brace_payload) sample_unmarshal
       (one_file ''app.log.gz'' archive) ''app.log.gz''
     = Some (Inr [level_entry ''info''])
   \<and> ReadCompressedLogs (\<lambda>bytes. Inr number_payload) sample_unmarshal
       (one_file ''app.log.gz'' archive) ''app.log.gz''
     = Some (Inr [level_entry ''info'', level_entry ''error''])"
  by (simp add: read_one_file clean_loop malformed_loop brace_loop number_loop)

section \<open>Properties of the time filter\<close>

lemma first_parse_formats:
  "first_parse Parse timestamp_formats ts =
     (case Parse RFC3339Nano ts of
        Inr t \<Rightarrow> Some t
      | Inl e1 \<Rightarrow>
          (case Parse ''2006-01-02T15:04:05.000-0700'' ts of
             Inr t \<Rightarrow> Some t
           | Inl e2 \<Rightarrow>
               (case Parse ''2006-01-02T15:04:05.000Z0700'' ts of
                  Inr t \<Rightarrow> Some t
                | Inl e3 \<Rightarrow> None)))"
  by (simp add: timestamp_formats_def RFC3339Nano_def split: sum.split)

lemma assert_string_Some: "assert_string v = Some s \<longleftrightarrow> v = Some (String s)"
  by (cases "(v)" rule: assert_string.cases) auto

lemma FilterByTimeRange_spec:
  "FilterByTimeRange Parse start end entry = time_range_spec Parse start end entry"
proof (cases "assert_string (entry ''timestamp'')")
  case None
  then have "\<And>s. entry ''timestamp'' \<noteq> Some (String s)"
    using assert_string_Some [of "entry ''timestamp''"] by auto
  with None show ?thesis
    by (auto simp: FilterByTimeRange_def time_range_spec_def split: option.split iface.split)
next
  case (Some ts)
  then have "entry ''timestamp'' = Some (String ts)"
    by (simp add: assert_string_Some)
  with Some show ?thesis
    by (simp add: FilterByTimeRange_def time_range_spec_def first_parse_formats After_def Before_def
        split: sum.split)
qed

text \<open>
  Claim C2. The predicate \<open>FilterByTimeRange start end\<close> reads the \<^verbatim>\<open>timestamp\<close> field of
  the record when it is a string and parses it with the first of three formats that
  accepts it: \<^verbatim>\<open>RFC3339Nano\<close>, whose offset has a colon, then two formats with three
  digits of milliseconds and an offset without a colon. The record matches exactly when
  the parsed time lies strictly after \<open>start\<close> and strictly before \<open>end\<close>. A record whose
  timestamp is missing, is not a string or is refused by all three formats does not
  match; the predicate has no other outcome than true or false.
\<close>

theorem FilterByTimeRange_first_format:
  "FilterByTimeRange Parse start end entry = time_range_spec Parse start end entry
   \<and> timestamp_formats =
       [RFC3339Nano, ''2006-01-02T15:04:05.000-0700'', ''2006-01-02T15:04:05.000Z0700'']
   \<and> (entry ''timestamp'' = Some (String ts) \<and> first_parse Parse timestamp_formats ts = Some t \<longrightarrow>
        (FilterByTimeRange Parse start end entry \<longleftrightarrow> start < t \<and> t < end))
   \<and> (entry ''timestamp'' = Some (String ts) \<and> first_parse Parse timestamp_formats ts = None \<longrightarrow>
        \<not> FilterByTimeRange Parse start end entry)
   \<and> ((\<forall>s. entry ''timestamp'' \<noteq> Some (String s)) \<longrightarrow>
        \<not> FilterByTimeRange Parse start end entry)"
  by (auto simp: FilterByTimeRange_spec time_range_spec_def timestamp_formats_def RFC3339Nano_def
      split: option.splits iface.splits)

theorem FilterByTimeRange_first_format_witness:
  "FilterByTimeRange sample_Parse 1764662397317000000 1764662397317000002
      (Map.empty(''timestamp'' \<mapsto> String ''2025-12-02T15:59:57.317+0800'')) = False
   \<and> FilterByTimeRange sample_Parse 1764662397316999999 1764662397317000001
      (Map.empty(''timestamp'' \<mapsto> String ''2025-12-02T15:59:57.317+0800'')) = True
   \<and> FilterByTimeRange sample_Parse 1764662397316999999 1764662397317000000
      (Map.empty(''timestamp'' \<mapsto> String ''2025-12-02T15:59:57.317+0800'')) = False
   \<and> FilterByTimeRange sample_Parse 0 1764662397317000001
      (Map.empty(''timestamp'' \<mapsto> String ''yesterday'')) = False
   \<and> FilterByTimeRange sample_Parse 0 1764662397317000001
      (Map.empty(''timestamp'' \<mapsto> Float64 1764662397)) = False
   \<and> FilterByTimeRange sample_Parse 0 1764662397317000001 Map.empty = False"
proof -
  let ?ts = "''2025-12-02T15:59:57.317+0800''"
  let ?e = "Map.empty(''timestamp'' \<mapsto> String ?ts)"
  have p: "first_parse sample_Parse timestamp_formats ?ts = Some 1764662397317000000"
    by (simp add: timestamp_formats_def sample_Parse_def)
  have q: "first_parse sample_Parse timestamp_formats ''yesterday'' = None"
    by (simp add: timestamp_formats_def sample_Parse_def)
  have inside: "FilterByTimeRange sample_Parse lo hi ?e \<longleftrightarrow>
      lo < 1764662397317000000 \<and> 1764662397317000000 < hi" for lo hi
    by (rule FilterByTimeRange_first_format [of sample_Parse lo hi ?e ?ts 1764662397317000000,
          THEN conjunct2, THEN conjunct2, THEN conjunct1, THEN mp])
      (simp add: p)
  have unparsed: "\<not> FilterByTimeRange sample_Parse 0 1764662397317000001
      (Map.empty(''timestamp'' \<mapsto> String ''yesterday''))"
    by (rule FilterByTimeRange_first_format [of sample_Parse _ _ _ "''yesterday''",
          THEN conjunct2, THEN conjunct2, THEN conjunct2, THEN conjunct1, THEN mp])
      (simp add: q)
  have number: "\<not> FilterByTimeRange sample_Parse 0 1764662397317000001
      (Map.empty(''timestamp'' \<mapsto> Float64 1764662397))"
    by (rule FilterByTimeRange_first_format [of sample_Parse,
          THEN conjunct2, THEN conjunct2, THEN conjunct2, THEN conjunct2, THEN mp])
      simp
  have missing: "\<not> FilterByTimeRange sample_Parse 0 1764662397317000001 Map.empty"
    by (rule FilterByTimeRange_first_format [of sample_Parse,
          THEN conjunct2, THEN conjunct2, THEN conjunct2, THEN conjunct2, THEN mp])
      simp
  show ?thesis
    using unparsed number missing by (simp add: inside)
qed

section \<open>Properties of the constructor\<close>

text \<open>
  Claim C3. A logger that \<open>NewLogger\<close> returns has a file destination with the rotation
  thresholds 100 megabytes, 3 backups and 28 days, and the JSON core writes to that
  destination. The thresholds do not depend on the \<open>Config\<close>: changing \<open>RotationSize\<close>
  to any value leaves the result of \<open>NewLogger\<close> as it is.
\<close>

theorem NewLogger_rotation_defaults:
  assumes "NewLogger Join config fs = (Inr l, fs')"
  shows "MaxSize (fileLogger l) = 100 \<and> MaxBackups (fileLogger l) = 3 \<and> MaxAge (fileLogger l) = 28
         \<and> hd (cores (zapLogger l)) = FileCore (fileLogger l)
         \<and> NewLogger Join (config\<lparr>RotationSize := r\<rparr>) fs = (Inr l, fs')"
  using assms
  by (auto simp: NewLogger_def Let_def split: if_splits prod.splits option.splits)

lemma sample_NewLogger:
  "NewLogger sample_Join sample_config sample_fs = (Inr sample_logger, sample_fs\<lparr>dirs := {''logs''}\<rparr>)"
  by (simp add: NewLogger_def sample_Join_def sample_config_def sample_fs_def sample_logger_def os_MkdirAll_def Let_def)

theorem NewLogger_rotation_defaults_witness:
  "NewLogger sample_Join sample_config sample_fs = (Inr sample_logger, sample_fs\<lparr>dirs := {''logs''}\<rparr>)
   \<and> MaxSize (fileLogger sample_logger) = 100
   \<and> MaxBackups (fileLogger sample_logger) = 3
   \<and> MaxAge (fileLogger sample_logger) = 28
   \<and> NewLogger sample_Join (sample_config\<lparr>RotationSize := 52428800\<rparr>) sample_fs
       = (Inr sample_logger, sample_fs\<lparr>dirs := {''logs''}\<rparr>)"
  using NewLogger_rotation_defaults [OF sample_NewLogger, of 52428800] sample_NewLogger
  by simp

section \<open>Properties of compression\<close>


lemma CompressLogFile_frame:
  "dirs (snd (CompressLogFile gzip l fs)) = dirs fs
   \<and> fault (snd (CompressLogFile gzip l fs)) = fault fs
   \<and> torn (snd (CompressLogFile gzip l fs)) = torn fs"
  by (simp add: CompressLogFile_def os_Create_def write_file_def Let_def
      split: option.split sum.split prod.split)







text \<open>
  Claim C8. For a logger whose log file does not exist, \<open>CompressLogFile\<close> returns an
  error with the message \<^verbatim>\<open>log file not found\<close> that wraps the error of \<^verbatim>\<open>os.Stat\<close>,
  which is \<^verbatim>\<open>ErrNotExist\<close> unless the call fails otherwise; the file system is left as
  it was, so no archive is created. Every error that \<open>CompressLogFile\<close> returns after the
  check has passed carries one of four other messages, those of the open, create, copy
  and flush steps.
\<close>

theorem CompressLogFile_not_found:
  assumes "files fs (filePath l) = None" "filePath l \<notin> dirs fs"
  shows "(\<exists>err. CompressLogFile gzip l fs = (Some (Errorf ''log file not found'' err), fs))
     \<and> (fault fs SysStat (filePath l) = None \<longrightarrow>
          CompressLogFile gzip l fs = (Some (Errorf ''log file not found'' ErrNotExist), fs))
     \<and> files (snd (CompressLogFile gzip l fs)) (filePath l @ ''.gz'') = files fs (filePath l @ ''.gz'')
     \<and> (\<forall>l2 fs2 msg err. os_Stat fs2 (filePath l2) = None \<and>
            fst (CompressLogFile gzip l2 fs2) = Some (Errorf msg err) \<longrightarrow>
            msg \<in> {''failed to open source file'', ''failed to create compressed file'',
                   ''failed to compress'', ''failed to flush gzip writer''})"
  using assms
  by (auto simp: CompressLogFile_def os_Stat_def Let_def split: option.splits sum.splits prod.splits)

lemma sample_missing:
  "files sample_fs (filePath sample_logger) = None" "filePath sample_logger \<notin> dirs sample_fs"
  by (simp_all add: sample_fs_def)

theorem CompressLogFile_not_found_witness:
  "files sample_fs (filePath sample_logger) = None
   \<and> CompressLogFile sample_gzip sample_logger sample_fs =
       (Some (Errorf ''log file not found'' ErrNotExist), sample_fs)
   \<and> files (snd (CompressLogFile sample_gzip sample_logger sample_fs)) ''logs/app.log.gz'' = None"
proof -
  note t = CompressLogFile_not_found [OF sample_missing, of sample_gzip]
  have nf: "fault sample_fs SysStat (filePath sample_logger) = None"
    by (simp add: sample_fs_def)
  have 1: "CompressLogFile sample_gzip sample_logger sample_fs =
       (Some (Errorf ''log file not found'' ErrNotExist), sample_fs)"
    using t [THEN conjunct2, THEN conjunct1, THEN mp, OF nf] .
  have 2: "files (snd (CompressLogFile sample_gzip sample_logger sample_fs)) ''logs/app.log.gz'' = None"
    using t [THEN conjunct2, THEN conjunct2, THEN conjunct1]
    by (simp add: sample_logger_def sample_fs_def)
  from sample_missing(1) 1 2 show ?thesis by (intro conjI)
qed

section \<open>Properties of logging at a level\<close>

text \<open>
  Claim C9. \<open>LogWithLevel\<close> with one of the six level tokens \<^verbatim>\<open>debug\<close>, \<^verbatim>\<open>info\<close>,
  \<^verbatim>\<open>warn\<close>, \<^verbatim>\<open>error\<close>, \<^verbatim>\<open>fatal\<close>, \<^verbatim>\<open>panic\<close> is the entry point of that severity.
  With any other token, a differently cased one included, it is \<open>Info\<close>: in a running
  process it hands the message to every core at the info level and lets the process
  run on.
\<close>

theorem LogWithLevel_dispatch:
  "LogWithLevel l ''debug'' = Debug l
   \<and> LogWithLevel l ''info'' = Info l
   \<and> LogWithLevel l ''warn'' = Warn l
   \<and> LogWithLevel l ''error'' = Error l
   \<and> LogWithLevel l ''fatal'' = Fatal l
   \<and> LogWithLevel l ''panic'' = Panic l
   \<and> (level \<notin> {''debug'', ''info'', ''warn'', ''error'', ''fatal'', ''panic''} \<longrightarrow>
        LogWithLevel l level = Info l)
   \<and> (level \<notin> {''debug'', ''info'', ''warn'', ''error'', ''fatal'', ''panic''} \<and> status p = Running \<longrightarrow>
        LogWithLevel l level message flds p =
          p\<lparr>written := written p @
               map (\<lambda>core. (core, \<lparr>Level = zapInfo, Message = message, Fields = flds\<rparr>))
                 (cores (zapLogger l))\<rparr>)"
  by (auto simp: LogWithLevel_def DebugLevel_def InfoLevel_def WarnLevel_def ErrorLevel_def
      FatalLevel_def PanicLevel_def Info_def zap_log_def fun_eq_iff)

theorem LogWithLevel_dispatch_witness:
  "LogWithLevel sample_logger ''INFO'' = Info sample_logger
   \<and> LogWithLevel sample_logger ''Debug'' = Info sample_logger
   \<and> LogWithLevel sample_logger [] = Info sample_logger
   \<and> LogWithLevel sample_logger ''Debug'' ''m'' [] \<lparr>written = [], status = Running\<rparr> =
       \<lparr>written = [(FileCore (fileLogger sample_logger),
                    \<lparr>Level = zapInfo, Message = ''m'', Fields = []\<rparr>)],
        status = Running\<rparr>
   \<and> Debug sample_logger ''m'' [] \<lparr>written = [], status = Running\<rparr> =
       \<lparr>written = [(FileCore (fileLogger sample_logger),
                    \<lparr>Level = zapDebug, Message = ''m'', Fields = []\<rparr>)],
        status = Running\<rparr>"
proof -
  let ?p = "\<lparr>written = [], status = Running\<rparr>"
  have unknown: "LogWithLevel sample_logger level = Info sample_logger"
    if "level \<notin> {''debug'', ''info'', ''warn'', ''error'', ''fatal'', ''panic''}" for level
    using LogWithLevel_dispatch [where l = sample_logger and level = level,
        THEN conjunct2, THEN conjunct2, THEN conjunct2, THEN conjunct2, THEN conjunct2,
        THEN conjunct2, THEN conjunct1] that
    by (rule mp)
  have 1: "LogWithLevel sample_logger ''INFO'' = Info sample_logger"
    by (rule unknown) simp
  have 2: "LogWithLevel sample_logger ''Debug'' = Info sample_logger"
    by (rule unknown) simp
  have 3: "LogWithLevel sample_logger [] = Info sample_logger"
    by (rule unknown) simp
  have 4: "LogWithLevel sample_logger ''Debug'' ''m'' [] ?p =
       \<lparr>written = [(FileCore (fileLogger sample_logger),
                    \<lparr>Level = zapInfo, Message = ''m'', Fields = []\<rparr>)],
        status = Running\<rparr>"
    unfolding 2 by (simp add: Info_def zap_log_def sample_logger_def)
  have 5: "Debug sample_logger ''m'' [] ?p =
       \<lparr>written = [(FileCore (fileLogger sample_logger),
                    \<lparr>Level = zapDebug, Message = ''m'', Fields = []\<rparr>)],
        status = Running\<rparr>"
    by (simp add: Debug_def zap_log_def sample_logger_def)
  from 1 2 3 4 5 show ?thesis by (intro conjI)
qed

end
